theory Spec2Isabelle
  imports Main
begin

section \<open>Python values used by \<open>qr-security-checker.py\<close>\<close>

text \<open>
  A Python \<open>str\<close> is a sequence of Unicode code points, so it is modelled as a list of
  natural numbers (the Cyrillic look-alikes of \<open>homoglyph_map\<close> lie outside the 8-bit
  \<open>char\<close> of HOL). ASCII literals of the source are written \<open>ascii ''...''\<close>.
\<close>

type_synonym pystr = "nat list"

definition ascii :: "string \<Rightarrow> pystr" where
  "ascii s = map of_char s"

text \<open>\<open>s.startswith(p)\<close>.\<close>

fun startswith :: "pystr \<Rightarrow> pystr \<Rightarrow> bool" where
  "startswith s [] = True"
| "startswith [] (c # p) = False"
| "startswith (d # s) (c # p) = (d = c \<and> startswith s p)"

text \<open>\<open>needle in hay\<close> for two strings: substring search.\<close>

fun py_in :: "pystr \<Rightarrow> pystr \<Rightarrow> bool" where
  "py_in needle [] = (needle = [])"
| "py_in needle (h # hs) = (startswith (h # hs) needle \<or> py_in needle hs)"

text \<open>
  Comparison of two strings is lexicographic on code points, and \<open>max(a, b)\<close> returns
  its first argument unless the second is strictly greater.
\<close>

fun str_lt :: "pystr \<Rightarrow> pystr \<Rightarrow> bool" where
  "str_lt [] [] = False"
| "str_lt [] (y # ys) = True"
| "str_lt (x # xs) [] = False"
| "str_lt (x # xs) (y # ys) = (x < y \<or> (x = y \<and> str_lt xs ys))"

definition py_max :: "pystr \<Rightarrow> pystr \<Rightarrow> pystr" where
  "py_max a b = (if str_lt a b then b else a)"

text \<open>\<open>sep.join(xs)\<close> and \<open>s.split(sep)\<close> for a one-character separator.\<close>

fun py_join :: "pystr \<Rightarrow> pystr list \<Rightarrow> pystr" where
  "py_join sep [] = []"
| "py_join sep [x] = x"
| "py_join sep (x # y # ys) = x @ sep @ py_join sep (y # ys)"

fun py_split :: "nat \<Rightarrow> pystr \<Rightarrow> pystr list" where
  "py_split sep [] = [[]]"
| "py_split sep (c # s) =
     (if c = sep then [] # py_split sep s
      else (case py_split sep s of [] \<Rightarrow> [[c]] | w # ws \<Rightarrow> (c # w) # ws))"

text \<open>\<open>str(n)\<close> for a non-negative integer, as an f-string prints \<open>len(...)\<close>.\<close>

fun str_nat :: "nat \<Rightarrow> pystr" where
  "str_nat n = (if n < 10 then [48 + n] else str_nat (n div 10) @ [48 + n mod 10])"

declare str_nat.simps [simp del]

text \<open>Truthiness of a value that is \<open>None\<close> or a string, and its f-string rendering.\<close>

fun truthy :: "pystr option \<Rightarrow> bool" where
  "truthy None = False"
| "truthy (Some s) = (s \<noteq> [])"

fun format_opt :: "pystr option \<Rightarrow> pystr" where
  "format_opt None = ascii ''None''"
| "format_opt (Some s) = s"

text \<open>
  Exceptions are values. Every exception the libraries raise is an instance of
  \<open>Exception\<close>; the class is kept as far as an \<open>except\<close> clause of the source tells
  classes apart, and the text is what \<open>str(e)\<close> returns.
\<close>

datatype exc_class = RequestException | IDNAError | OtherException

datatype exception = Exc exc_class pystr

fun exc_class_of :: "exception \<Rightarrow> exc_class" where
  "exc_class_of (Exc k m) = k"

fun exc_str :: "exception \<Rightarrow> pystr" where
  "exc_str (Exc k m) = m"


section \<open>Module-level configuration\<close>

definition url_shorteners :: "pystr list" where
  "url_shorteners = map ascii
     [''bit.ly'', ''tinyurl.com'', ''t.co'', ''goo.gl'', ''tiny.cc'',
      ''ow.ly'', ''is.gd'', ''buff.ly'', ''adf.ly'', ''bitly.com'',
      ''rebrand.ly'', ''cutt.ly'', ''shorturl.at'', ''tiny.one'',
      ''rotf.lol'', ''shorturl.asia'']"

text \<open>The regular expressions, as their source text (a backslash is code point 92).\<close>

definition suspicious_patterns :: "pystr list" where
  "suspicious_patterns =
     [ascii ''(?i)'' @ [92] @ ascii ''.exe$'',
      ascii ''(?i)'' @ [92] @ ascii ''.bat$'',
      ascii ''(?i)'' @ [92] @ ascii ''.ps1$'',
      ascii ''(?i)phish'',
      ascii ''(?i)login'',
      ascii ''(?i)password'',
      ascii ''(?i)bank'',
      ascii ''(?i)wallet'',
      ascii ''data:text/html'',
      ascii ''javascript:'']"

definition safe_domains :: "pystr list" where
  "safe_domains = map ascii
     [''google.com'', ''microsoft.com'', ''apple.com'', ''amazon.com'', ''github.com'']"

text \<open>
  \<open>homoglyph_map\<close>, in insertion order. The look-alikes are single Cyrillic letters,
  given by code point (U+0430 is 1072, U+042C is 1068, U+0431 is 1073, U+0441 is 1089,
  U+0435 is 1077, U+043D is 1085, U+0456 is 1110, U+043E is 1086, U+0440 is 1088,
  U+0455 is 1109, U+0442 is 1090, U+0445 is 1093, U+0443 is 1091), and the digit \<open>1\<close>.
\<close>

definition homoglyph_map :: "(pystr \<times> pystr list) list" where
  "homoglyph_map =
     [(ascii ''a'', [[1072]]), (ascii ''b'', [[1068], [1073]]), (ascii ''c'', [[1089]]),
      (ascii ''e'', [[1077]]),
      (ascii ''h'', [[1085]]), (ascii ''i'', [[1110], ascii ''1'']),
      (ascii ''l'', [[1110], ascii ''1'']), (ascii ''o'', [[1086]]),
      (ascii ''p'', [[1088]]), (ascii ''s'', [[1109]]), (ascii ''t'', [[1090]]),
      (ascii ''x'', [[1093]]), (ascii ''y'', [[1091]]),
      (ascii ''z'', [[1109]])]"

text \<open>The fixed confusable-character set: every character of every look-alike.\<close>

definition confusable_chars :: "nat set" where
  "confusable_chars = set (concat (concat (map snd homoglyph_map)))"


section \<open>The libraries the module calls\<close>

text \<open>
  \<open>urllib\<close>, \<open>tldextract\<close>, \<open>requests\<close>, \<open>idna\<close>, \<open>unidecode\<close> and \<open>re\<close> are not part
  of the repository. Each call is a field of an environment, and every theorem below
  holds for all environments or names the library answers it relies on.
  \<^item> \<open>urlparse_scheme\<close>: \<open>urllib.parse.urlparse(s).scheme\<close>, or the exception raised;
  \<^item> \<open>tld_extract\<close>: \<open>tldextract.extract(s)\<close>; \<open>tld_extract_none\<close> is what it raises when
    handed \<open>None\<close> instead of a string;
  \<^item> \<open>requests_head\<close>: the answer to the \<open>i\<close>-th \<open>requests.head\<close> of one resolution
    (counted from 0) for a URL: a response or an exception;
  \<^item> \<open>urljoin\<close>, \<open>unquote\<close>: \<open>urllib.parse.urljoin(base, ref)\<close>, \<open>urllib.parse.unquote(s)\<close>;
  \<^item> \<open>unidecode\<close>, \<open>idna_decode\<close>: \<open>unidecode.unidecode(s)\<close>, \<open>idna.decode(s)\<close>;
  \<^item> \<open>re_search\<close>: whether \<open>re.search(pattern, s)\<close> finds a match;
  \<^item> \<open>set_iter\<close>: the order in which Python iterates over \<open>set(xs)\<close> (unspecified
    by the language).
  \<open>time.sleep\<close> has no effect on any value and is left out.
\<close>

record extract_result =
  subdomain :: pystr
  domain :: pystr
  suffix :: pystr
  registered_domain :: pystr

record response =
  status_code :: int
  location :: "pystr option"

record env =
  urlparse_scheme :: "pystr \<Rightarrow> exception + pystr"
  tld_extract :: "pystr \<Rightarrow> exception + extract_result"
  tld_extract_none :: exception
  requests_head :: "nat \<Rightarrow> pystr \<Rightarrow> exception + response"
  urljoin :: "pystr \<Rightarrow> pystr \<Rightarrow> exception + pystr"
  unquote :: "pystr \<Rightarrow> pystr"
  unidecode :: "pystr \<Rightarrow> pystr"
  idna_decode :: "pystr \<Rightarrow> exception + pystr"
  re_search :: "pystr \<Rightarrow> pystr \<Rightarrow> bool"
  set_iter :: "pystr list \<Rightarrow> pystr list"


section \<open>The functions of the module\<close>

text \<open>\<open>is_shortlink\<close>: the bare \<open>except\<close> turns every failure into \<open>False\<close>.\<close>

definition is_shortlink :: "env \<Rightarrow> pystr \<Rightarrow> bool" where
  "is_shortlink E url =
     (case tld_extract E url of
        Inl e \<Rightarrow> False
      | Inr r \<Rightarrow> registered_domain r \<in> set url_shorteners)"

text \<open>
  \<open>safely_resolve_url\<close> returns \<open>(current_url, redirect_chain, error)\<close>. The clause
  \<open>except requests.exceptions.RequestException\<close> encloses the whole loop: it is applied
  where a call raises, with the chain as it is at that moment; any other exception
  leaves the function.
\<close>

type_synonym resolution = "pystr option \<times> pystr list \<times> pystr option"

definition except_request :: "exception \<Rightarrow> pystr list \<Rightarrow> exception + resolution" where
  "except_request e redirect_chain =
     (if exc_class_of e = RequestException
      then Inr (None, redirect_chain, Some (ascii ''Error resolving URL: '' @ exc_str e))
      else Inl e)"

definition redirect_codes :: "int list" where
  "redirect_codes = [301, 302, 303, 307, 308]"

text \<open>
  The two lines after \<open>headers.get('location')\<close>: a non-empty value that starts with
  neither \<open>http://\<close> nor \<open>https://\<close> is joined to \<open>url\<close>, the argument of the function.
\<close>

definition join_if_relative :: "env \<Rightarrow> pystr \<Rightarrow> pystr option \<Rightarrow> exception + pystr option" where
  "join_if_relative E url current_url =
     (case current_url of
        None \<Rightarrow> Inr None
      | Some l \<Rightarrow>
          if truthy (Some l) \<and>
             \<not> (startswith l (ascii ''http://'') \<or> startswith l (ascii ''https://''))
          then (case urljoin E url l of Inl e \<Rightarrow> Inl e | Inr j \<Rightarrow> Inr (Some j))
          else Inr (Some l))"

text \<open>
  The \<open>for\<close> loop: \<open>k\<close> iterations are left, \<open>i\<close> requests have been sent, and
  \<open>current_url\<close> is a non-empty string whenever an iteration starts after the first.
\<close>

fun resolve_loop ::
  "env \<Rightarrow> pystr \<Rightarrow> nat \<Rightarrow> nat \<Rightarrow> pystr \<Rightarrow> pystr list \<Rightarrow> exception + resolution" where
  "resolve_loop E url 0 i current_url redirect_chain =
     Inr (Some current_url, redirect_chain, None)"
| "resolve_loop E url (Suc k) i current_url redirect_chain =
     (let redirect_chain = redirect_chain @ [current_url] in
      case requests_head E i current_url of
        Inl e \<Rightarrow> except_request e redirect_chain
      | Inr head_response \<Rightarrow>
          if status_code head_response \<notin> set redirect_codes
          then Inr (Some current_url, redirect_chain, None)
          else
            (case join_if_relative E url (location head_response) of
               Inl e \<Rightarrow> except_request e redirect_chain
             | Inr next_url \<Rightarrow>
                 (case next_url of
                    None \<Rightarrow> Inr (None, redirect_chain, None)
                  | Some u \<Rightarrow>
                      if \<not> truthy (Some u) then Inr (Some u, redirect_chain, None)
                      else resolve_loop E url k (Suc i) u redirect_chain)))"

definition safely_resolve_url :: "env \<Rightarrow> pystr \<Rightarrow> nat \<Rightarrow> exception + resolution" where
  "safely_resolve_url E url max_redirects = resolve_loop E url max_redirects 0 url []"

text \<open>
  \<open>contains_homoglyphs\<close>: the transliteration is computed and not used; the nested
  loops return at the first look-alike that occurs in \<open>url\<close> and differs from its key.
\<close>

definition contains_homoglyphs :: "env \<Rightarrow> pystr \<Rightarrow> bool" where
  "contains_homoglyphs E url =
     (let normalized_url = unidecode E url in
      list_ex (\<lambda>(char, homoglyphs).
         list_ex (\<lambda>homoglyph. py_in homoglyph url \<and> homoglyph \<noteq> char) homoglyphs)
       homoglyph_map)"

text \<open>\<open>detect_homograph_attack\<close>: only \<open>idna.IDNAError\<close> is recovered from.\<close>

definition detect_homograph_attack :: "env \<Rightarrow> pystr \<Rightarrow> exception + bool" where
  "detect_homograph_attack E domain_name =
     (case idna_decode E domain_name of
        Inl e \<Rightarrow>
          if exc_class_of e = IDNAError then Inr (contains_homoglyphs E domain_name) else Inl e
      | Inr domain_unicode \<Rightarrow> Inr (contains_homoglyphs E domain_unicode))"

text \<open>The list comprehension over \<open>tldextract.extract\<close>: the first exception ends it.\<close>

fun extract_all :: "env \<Rightarrow> pystr list \<Rightarrow> exception + extract_result list" where
  "extract_all E [] = Inr []"
| "extract_all E (url # urls) =
     (case tld_extract E url of
        Inl e \<Rightarrow> Inl e
      | Inr r \<Rightarrow> (case extract_all E urls of Inl e \<Rightarrow> Inl e | Inr rs \<Rightarrow> Inr (r # rs)))"

definition analyze_redirect_chain :: "env \<Rightarrow> pystr list \<Rightarrow> exception + pystr list" where
  "analyze_redirect_chain E redirect_chain =
     (let risks1 =
            (if length redirect_chain > 3
             then [ascii ''Suspicious number of redirects: '' @ str_nat (length redirect_chain)]
             else []);
          has_http = list_ex (\<lambda>url. startswith url (ascii ''http://'')) redirect_chain;
          has_https = list_ex (\<lambda>url. startswith url (ascii ''https://'')) redirect_chain;
          risks2 =
            risks1 @
            (if has_http \<and> has_https then [ascii ''Mixed HTTP/HTTPS redirects detected''] else [])
      in case extract_all E redirect_chain of
           Inl e \<Rightarrow> Inl e
         | Inr rs \<Rightarrow>
             (let domains = map suffix rs in
              Inr (risks2 @
                   (if length (remdups domains) > 2
                    then [ascii ''Multiple country domains in redirect chain: '' @
                          py_join (ascii '', '') (set_iter E domains)]
                    else []))))"

text \<open>
  \<open>analyze_content\<close>. The local variables that the \<open>try\<close> block changes, and that the
  handler and the returned dictionary read, form the state; \<open>risks\<close> is changed in
  place, so an exception leaves behind what was appended before it.
\<close>

record locals =
  content :: "pystr option"
  risk_level :: pystr
  risks :: "pystr list"

record analysis_result = locals +
  is_malicious :: bool
  recommendation :: pystr

text \<open>The block under \<open>if is_shortlink(content)\<close>.\<close>

definition shortlink_stage :: "env \<Rightarrow> pystr \<Rightarrow> locals \<Rightarrow> exception option \<times> locals" where
  "shortlink_stage E c s =
     (if is_shortlink E c then
        (case safely_resolve_url E c 5 of
           Inl e \<Rightarrow> (Some e, s)
         | Inr (final_url, redirects, error) \<Rightarrow>
             if truthy error then
               (None, s\<lparr>risks := risks s @
                          [ascii ''Error resolving shortened URL: '' @ format_opt error],
                        risk_level := ascii ''HIGH''\<rparr>)
             else
               (case analyze_redirect_chain E redirects of
                  Inl e \<Rightarrow> (Some e, s)
                | Inr redirect_risks \<Rightarrow>
                    (let s1 = s\<lparr>risks := risks s @ redirect_risks\<rparr>;
                         s2 = (if redirect_risks \<noteq> [] then s1\<lparr>risk_level := ascii ''HIGH''\<rparr>
                               else s1)
                     in (None, s2\<lparr>content := final_url,
                                  risks := risks s2 @
                                    [ascii ''URL redirect chain: '' @
                                     py_join (ascii '' -> '') redirects]\<rparr>))))
      else (None, s))"

text \<open>The loop over \<open>suspicious_patterns\<close>.\<close>

fun pattern_loop :: "env \<Rightarrow> pystr \<Rightarrow> pystr list \<Rightarrow> locals \<Rightarrow> locals" where
  "pattern_loop E c [] s = s"
| "pattern_loop E c (pattern # patterns) s =
     pattern_loop E c patterns
       (if re_search E pattern c
        then s\<lparr>risks := risks s @ [ascii ''Suspicious pattern found: '' @ pattern],
               risk_level := ascii ''HIGH''\<rparr>
        else s)"

text \<open>
  The checks after the domain has been extracted, one function for each \<open>if\<close>
  statement, in the order of the source: homoglyphs in the content, the domain
  allow-list, the homograph attack on the domain (\<open>attack\<close> is what
  \<open>detect_homograph_attack\<close> returned), percent-encoding, the number of subdomain labels.
\<close>

definition homoglyph_check :: "env \<Rightarrow> pystr \<Rightarrow> locals \<Rightarrow> locals" where
  "homoglyph_check E c s =
     (if contains_homoglyphs E c
      then s\<lparr>risks := risks s @
               [ascii ''URL contains visually similar characters (homoglyphs)''],
             risk_level := py_max (risk_level s) (ascii ''MEDIUM'')\<rparr>
      else s)"

definition domain_check :: "pystr \<Rightarrow> locals \<Rightarrow> locals" where
  "domain_check domain_name s =
     (if domain_name \<notin> set safe_domains
      then s\<lparr>risks := risks s @ [ascii ''Unknown domain: '' @ domain_name],
             risk_level := py_max (risk_level s) (ascii ''MEDIUM'')\<rparr>
      else s)"

definition homograph_check :: "bool \<Rightarrow> pystr \<Rightarrow> locals \<Rightarrow> locals" where
  "homograph_check attack domain_name s =
     (if attack
      then s\<lparr>risks := risks s @
               [ascii ''Suspicious homograph attack detected in domain: '' @ domain_name],
             risk_level := ascii ''HIGH''\<rparr>
      else s)"

definition encoded_check :: "env \<Rightarrow> pystr \<Rightarrow> locals \<Rightarrow> locals" where
  "encoded_check E c s =
     (let decoded_url = unquote E c in
      if decoded_url \<noteq> c
      then s\<lparr>risks := risks s @ [ascii ''URL contains encoded characters''],
             risk_level := py_max (risk_level s) (ascii ''MEDIUM'')\<rparr>
      else s)"

definition subdomain_check :: "extract_result \<Rightarrow> locals \<Rightarrow> locals" where
  "subdomain_check domain_info s =
     (if length (py_split 46 (subdomain domain_info)) > 3
      then s\<lparr>risks := risks s @ [ascii ''Suspicious number of subdomains''],
             risk_level := ascii ''HIGH''\<rparr>
      else s)"

text \<open>
  From \<open>tldextract.extract(content)\<close> to the end of the \<open>try\<close> block. After a resolved
  shortlink \<open>content\<close> is \<open>final_url\<close>, which is \<open>None\<close> when a redirect had no
  \<open>Location\<close>; the extraction then raises.
\<close>

definition url_checks :: "env \<Rightarrow> locals \<Rightarrow> exception option \<times> locals" where
  "url_checks E s =
     (case content s of
        None \<Rightarrow> (Some (tld_extract_none E), s)
      | Some c \<Rightarrow>
          (case tld_extract E c of
             Inl e \<Rightarrow> (Some e, s)
           | Inr domain_info \<Rightarrow>
               (let domain_name = domain domain_info @ ascii ''.'' @ suffix domain_info;
                    s1 = homoglyph_check E c s;
                    s2 = domain_check domain_name s1
                in case detect_homograph_attack E domain_name of
                     Inl e \<Rightarrow> (Some e, s2)
                   | Inr attack \<Rightarrow>
                       (let s3 = homograph_check attack domain_name s2;
                            s4 = pattern_loop E c suspicious_patterns s3;
                            s5 = encoded_check E c s4;
                            s6 = subdomain_check domain_info s5
                        in (None, s6)))))"

text \<open>The \<open>try\<close> block: the raised exception, if any, and the locals it leaves.\<close>

definition analyze_body :: "env \<Rightarrow> pystr \<Rightarrow> locals \<Rightarrow> exception option \<times> locals" where
  "analyze_body E c s =
     (case urlparse_scheme E c of
        Inl e \<Rightarrow> (Some e, s)
      | Inr scheme \<Rightarrow>
          if truthy (Some scheme) then
            (case shortlink_stage E c s of
               (Some e, s1) \<Rightarrow> (Some e, s1)
             | (None, s1) \<Rightarrow> url_checks E s1)
          else (None, s))"

definition initial_locals :: "pystr \<Rightarrow> locals" where
  "initial_locals c = \<lparr>content = Some c, risk_level = ascii ''LOW'', risks = []\<rparr>"

text \<open>The \<open>except Exception as e\<close> handler and the returned dictionary.\<close>

definition handle_exception :: "exception \<Rightarrow> locals \<Rightarrow> locals" where
  "handle_exception e s =
     s\<lparr>risks := risks s @ [ascii ''Error analyzing URL: '' @ exc_str e],
       risk_level := ascii ''UNKNOWN''\<rparr>"

definition recommendation_of :: "pystr \<Rightarrow> pystr" where
  "recommendation_of level =
     (if level = ascii ''HIGH'' then ascii ''BLOCK''
      else if level = ascii ''MEDIUM'' then ascii ''WARN''
      else ascii ''ALLOW'')"

definition result_of :: "locals \<Rightarrow> analysis_result" where
  "result_of s =
     \<lparr>content = content s, risk_level = risk_level s, risks = risks s,
      is_malicious = (risk_level s = ascii ''HIGH''),
      recommendation = recommendation_of (risk_level s)\<rparr>"

definition analyze_content :: "env \<Rightarrow> pystr \<Rightarrow> exception + analysis_result" where
  "analyze_content E c =
     (case analyze_body E c (initial_locals c) of
        (None, s) \<Rightarrow> Inr (result_of s)
      | (Some e, s) \<Rightarrow> Inr (result_of (handle_exception e s)))"


text \<open>
  A state is flagged when it carries the homoglyph note and its level is \<open>MEDIUM\<close> or
  \<open>HIGH\<close>; every check after the homoglyph check keeps a flagged state flagged.
\<close>

definition flagged :: "locals \<Rightarrow> bool" where
  "flagged s \<longleftrightarrow>
     ascii ''URL contains visually similar characters (homoglyphs)'' \<in> set (risks s) \<and>
     (risk_level s = ascii ''MEDIUM'' \<or> risk_level s = ascii ''HIGH'')"

section \<open>A scenario\<close>

text \<open>
  One environment for the examples: the answers of the libraries and of the network
  at the inputs the examples use, namely the URLs \<open>https://github.com/foo\<close>,
  \<open>https://github.com/v1\<close>, \<open>https://github.com/login%20x\<close>, \<open>http://[\<close>
  (which \<open>urlparse\<close> rejects), and the shortener links \<open>https://bit.ly/abc\<close> (the request
  times out), \<open>https://bit.ly/1\<close> (redirects to \<open>https://github.com/foo\<close>),
  \<open>https://bit.ly/a\<close> (redirects to \<open>https://example.com/dir/page\<close>, which redirects to
  the relative reference \<open>next\<close>) and \<open>https://bit.ly/loop\<close> (redirects to itself).
\<close>

definition github_com :: extract_result where
  "github_com = \<lparr>subdomain = [], domain = ascii ''github'', suffix = ascii ''com'',
                  registered_domain = ascii ''github.com''\<rparr>"

definition bit_ly :: extract_result where
  "bit_ly = \<lparr>subdomain = [], domain = ascii ''bit'', suffix = ascii ''ly'',
              registered_domain = ascii ''bit.ly''\<rparr>"

definition example_com :: extract_result where
  "example_com = \<lparr>subdomain = [], domain = ascii ''example'', suffix = ascii ''com'',
                   registered_domain = ascii ''example.com''\<rparr>"

definition scenario_web :: "nat \<Rightarrow> pystr \<Rightarrow> exception + response" where
  "scenario_web i url =
     (if url = ascii ''https://bit.ly/abc''
      then Inl (Exc RequestException (ascii ''Read timed out. (read timeout=5)''))
      else if url = ascii ''https://bit.ly/1''
      then Inr \<lparr>status_code = 301, location = Some (ascii ''https://github.com/foo'')\<rparr>
      else if url = ascii ''https://bit.ly/a''
      then Inr \<lparr>status_code = 301, location = Some (ascii ''https://example.com/dir/page'')\<rparr>
      else if url = ascii ''https://example.com/dir/page''
      then Inr \<lparr>status_code = 302, location = Some (ascii ''next'')\<rparr>
      else if url = ascii ''https://bit.ly/loop''
      then Inr \<lparr>status_code = 301, location = Some (ascii ''https://bit.ly/loop'')\<rparr>
      else Inr \<lparr>status_code = 200, location = None\<rparr>)"

definition scenario_env :: env where
  "scenario_env =
     \<lparr>urlparse_scheme = (\<lambda>s. if s = ascii ''http://[''
                               then Inl (Exc OtherException (ascii ''Invalid IPv6 URL''))
                               else Inr (ascii ''https'')),
      tld_extract = (\<lambda>s. Inr (if startswith s (ascii ''https://bit.ly/'') then bit_ly
                               else if startswith s (ascii ''https://example.com/'')
                               then example_com else github_com)),
      tld_extract_none = Exc OtherException (ascii ''expected a string''),
      requests_head = scenario_web,
      urljoin = (\<lambda>base ref. Inr (if startswith base (ascii ''https://bit.ly/'')
                                    then ascii ''https://bit.ly/'' @ ref
                                    else ascii ''https://example.com/dir/'' @ ref)),
      unquote = (\<lambda>s. if s = ascii ''https://github.com/login%20x''
                       then ascii ''https://github.com/login x'' else s),
      unidecode = (\<lambda>s. s),
      idna_decode = (\<lambda>s. Inr s),
      re_search = (\<lambda>pattern s. pattern = ascii ''(?i)login'' \<and> py_in (ascii ''login'') s),
      set_iter = remdups\<rparr>"

text \<open>
  The same environment with one more registered domain, \<open>example.org\<close>, for a chain
  that spans three suffixes.
\<close>

definition example_org :: extract_result where
  "example_org = \<lparr>subdomain = [], domain = ascii ''example'', suffix = ascii ''org'',
                   registered_domain = ascii ''example.org''\<rparr>"

definition suffix_env :: env where
  "suffix_env =
     scenario_env\<lparr>tld_extract :=
       (\<lambda>s. Inr (if startswith s (ascii ''https://bit.ly/'') then bit_ly
                 else if startswith s (ascii ''https://example.org/'') then example_org
                 else github_com))\<rparr>"


section \<open>Facts about the Python values\<close>

lemma ascii_eq_iff [simp]: "ascii s = ascii t \<longleftrightarrow> s = t"
  unfolding ascii_def by (simp add: inj_map_eq_map inj_on_def)

lemma ascii_Nil_iff [simp]: "ascii s = [] \<longleftrightarrow> s = []"
  by (simp add: ascii_def)

lemma ascii_append: "ascii s @ ascii t = ascii (s @ t)"
  by (simp add: ascii_def)

lemma ascii_append_left: "ascii s @ ascii t @ r = ascii (s @ t) @ r"
  by (simp add: ascii_def)

lemma startswith_Cons_iff: "startswith s (c # p) \<longleftrightarrow> (\<exists>t. s = c # t \<and> startswith t p)"
  by (cases s) auto

lemma startswith_ascii [simp]: "startswith (ascii s) (ascii p) \<longleftrightarrow> take (length p) s = p"
proof (induction p arbitrary: s)
  case Nil
  then show ?case by (simp add: ascii_def)
next
  case (Cons c p)
  then show ?case by (cases s) (auto simp: ascii_def)
qed

lemma https_not_http:
  "startswith u (ascii ''https://'') \<Longrightarrow> \<not> startswith u (ascii ''http://'')"
  by (auto simp: ascii_def startswith_Cons_iff)

lemma startswith_nonempty: "startswith u (ascii ''https://'') \<Longrightarrow> u \<noteq> []"
  by (auto simp: ascii_def startswith_Cons_iff)

lemma py_in_single: "py_in [g] url \<longleftrightarrow> g \<in> set url"
  by (induction url) auto

lemma py_max_levels:
  "py_max (ascii ''LOW'') (ascii ''MEDIUM'') = ascii ''MEDIUM''"
  "py_max (ascii ''MEDIUM'') (ascii ''MEDIUM'') = ascii ''MEDIUM''"
  "py_max (ascii ''HIGH'') (ascii ''MEDIUM'') = ascii ''MEDIUM''"
  by (simp_all add: py_max_def ascii_def)

lemma py_max_medium:
  "l = ascii ''LOW'' \<or> l = ascii ''MEDIUM'' \<or> l = ascii ''HIGH'' \<Longrightarrow>
   py_max l (ascii ''MEDIUM'') = ascii ''MEDIUM''"
  using py_max_levels by auto

lemma list_ex_False [simp]: "\<not> list_ex (\<lambda>p. False) ps"
  by (induction ps) auto

lemma filter_none: "list_all (\<lambda>p. \<not> P p) ps \<Longrightarrow> filter P ps = [] \<and> \<not> list_ex P ps"
  by (induction ps) auto


section \<open>Facts about the functions\<close>

lemma confusable_chars_eq:
  "confusable_chars =
     {1072, 1068, 1073, 1089, 1077, 1085, 1110, 49, 1086, 1088, 1109, 1090, 1093, 1091}"
  by (auto simp: confusable_chars_def homoglyph_map_def ascii_def)

lemma contains_homoglyphs_iff:
  "contains_homoglyphs E url \<longleftrightarrow> set url \<inter> confusable_chars \<noteq> {}"
  unfolding confusable_chars_eq
  by (simp add: contains_homoglyphs_def homoglyph_map_def ascii_def py_in_single) blast

lemma pattern_loop_eq:
  "pattern_loop E c ps s =
     s\<lparr>risks := risks s @
          map (\<lambda>p. ascii ''Suspicious pattern found: '' @ p) (filter (\<lambda>p. re_search E p c) ps),
       risk_level := (if list_ex (\<lambda>p. re_search E p c) ps then ascii ''HIGH''
                      else risk_level s)\<rparr>"
  by (induction ps arbitrary: s) auto

lemma resolve_loop_length:
  "resolve_loop E url k i cur chain = Inr (f, ch, err) \<Longrightarrow> length ch \<le> length chain + k"
proof (induction k arbitrary: i cur chain)
  case 0
  then show ?case by simp
next
  case (Suc k)
  show ?case
  proof (cases "requests_head E i cur")
    case (Inl e)
    with Suc.prems show ?thesis
      by (auto simp: except_request_def split: if_splits)
  next
    case (Inr resp)
    show ?thesis
    proof (cases "status_code resp \<in> set redirect_codes")
      case False
      with Inr Suc.prems show ?thesis by auto
    next
      case True
      show ?thesis
      proof (cases "join_if_relative E url (location resp)")
        case (Inl e)
        with Inr True Suc.prems show ?thesis
          by (auto simp: except_request_def split: if_splits)
      next
        case next_url: (Inr nu)
        show ?thesis
        proof (cases nu)
          case None
          with next_url Inr True Suc.prems show ?thesis by auto
        next
          case (Some u)
          show ?thesis
          proof (cases "u = []")
            case True
            with Some next_url Inr \<open>status_code resp \<in> set redirect_codes\<close> Suc.prems
            show ?thesis by auto
          next
            case False
            with Some next_url Inr \<open>status_code resp \<in> set redirect_codes\<close> Suc.prems
            have "resolve_loop E url k (Suc i) u (chain @ [cur]) = Inr (f, ch, err)"
              by simp
            from Suc.IH [OF this] show ?thesis by simp
          qed
        qed
      qed
    qed
  qed
qed

text \<open>
  The list comprehension succeeds exactly when every extraction does, and then holds
  the results of \<open>tldextract.extract\<close> for the entries, in order.
\<close>

lemma extract_all_pointwise:
  "list_all2 (\<lambda>url r. tld_extract E url = Inr r) urls rs \<Longrightarrow> extract_all E urls = Inr rs"
  by (induction urls rs rule: list_all2_induct) simp_all

lemma shortlink_stage_level:
  "shortlink_stage E c s = (x, s') \<Longrightarrow> risk_level s = ascii ''LOW'' \<Longrightarrow>
   risk_level s' = ascii ''LOW'' \<or> risk_level s' = ascii ''HIGH''"
  by (auto simp: shortlink_stage_def Let_def split: if_splits sum.splits prod.splits)

lemma homoglyph_check_flagged:
  "contains_homoglyphs E c \<Longrightarrow>
   risk_level s = ascii ''LOW'' \<or> risk_level s = ascii ''HIGH'' \<Longrightarrow>
   flagged (homoglyph_check E c s)"
  by (auto simp: homoglyph_check_def flagged_def py_max_medium)

lemma domain_check_flagged: "flagged s \<Longrightarrow> flagged (domain_check d s)"
  by (auto simp: domain_check_def flagged_def py_max_medium)

lemma homograph_check_flagged: "flagged s \<Longrightarrow> flagged (homograph_check a d s)"
  by (auto simp: homograph_check_def flagged_def)

lemma pattern_loop_flagged: "flagged s \<Longrightarrow> flagged (pattern_loop E c ps s)"
  by (auto simp: pattern_loop_eq flagged_def)

lemma encoded_check_flagged: "flagged s \<Longrightarrow> flagged (encoded_check E c s)"
  by (auto simp: encoded_check_def flagged_def py_max_medium)

lemma subdomain_check_flagged: "flagged s \<Longrightarrow> flagged (subdomain_check di s)"
  by (auto simp: subdomain_check_def flagged_def)

lemma checks_content [simp]:
  "content (homoglyph_check E c s) = content s"
  "content (domain_check d s) = content s"
  "content (homograph_check a d s) = content s"
  "content (pattern_loop E c ps s) = content s"
  "content (encoded_check E c s) = content s"
  "content (subdomain_check di s) = content s"
  by (simp_all add: homoglyph_check_def domain_check_def homograph_check_def pattern_loop_eq
      encoded_check_def subdomain_check_def)

lemma url_checks_content: "url_checks E s = (x, s') \<Longrightarrow> content s' = content s"
  by (auto simp: url_checks_def Let_def split: option.splits sum.splits)

lemma url_checks_flagged:
  assumes run: "url_checks E s = (None, s')"
    and c: "content s = Some c'"
    and h: "contains_homoglyphs E c'"
    and l: "risk_level s = ascii ''LOW'' \<or> risk_level s = ascii ''HIGH''"
  shows "flagged s'"
proof -
  from run c obtain di where di: "tld_extract E c' = Inr di"
    by (auto simp: url_checks_def split: sum.splits)
  define dn where "dn = domain di @ ascii ''.'' @ suffix di"
  from run c di obtain attack where a: "detect_homograph_attack E dn = Inr attack"
    by (auto simp: url_checks_def Let_def dn_def split: sum.splits)
  have "s' = subdomain_check di (encoded_check E c' (pattern_loop E c' suspicious_patterns
              (homograph_check attack dn (domain_check dn (homoglyph_check E c' s)))))"
    using run c di a by (simp add: url_checks_def Let_def dn_def)
  then show ?thesis
    by (simp add: subdomain_check_flagged encoded_check_flagged pattern_loop_flagged
        homograph_check_flagged domain_check_flagged homoglyph_check_flagged [OF h l])
qed

lemma scenario_env_fields [simp]:
  "urlparse_scheme scenario_env =
     (\<lambda>s. if s = ascii ''http://['' then Inl (Exc OtherException (ascii ''Invalid IPv6 URL''))
          else Inr (ascii ''https''))"
  "tld_extract scenario_env =
     (\<lambda>s. Inr (if startswith s (ascii ''https://bit.ly/'') then bit_ly
               else if startswith s (ascii ''https://example.com/'') then example_com
               else github_com))"
  "tld_extract_none scenario_env = Exc OtherException (ascii ''expected a string'')"
  "requests_head scenario_env = scenario_web"
  "urljoin scenario_env =
     (\<lambda>base ref. Inr (if startswith base (ascii ''https://bit.ly/'')
                      then ascii ''https://bit.ly/'' @ ref
                      else ascii ''https://example.com/dir/'' @ ref))"
  "unquote scenario_env =
     (\<lambda>s. if s = ascii ''https://github.com/login%20x''
          then ascii ''https://github.com/login x'' else s)"
  "unidecode scenario_env = (\<lambda>s. s)"
  "idna_decode scenario_env = (\<lambda>s. Inr s)"
  "re_search scenario_env =
     (\<lambda>pattern s. pattern = ascii ''(?i)login'' \<and> py_in (ascii ''login'') s)"
  "set_iter scenario_env = remdups"
  by (simp_all add: scenario_env_def)


section \<open>Redirect resolution\<close>

text \<open>
  C6. For every starting URL, every bound \<open>max_redirects\<close> (5 by default) and whatever
  the remote hosts answer, a chain returned by \<open>safely_resolve_url\<close> has at most
  \<open>max_redirects + 1\<close> entries.
\<close>

theorem redirect_chain_length_bound:
  "safely_resolve_url E url max_redirects = Inr (final_url, redirect_chain, error) \<Longrightarrow>
   length redirect_chain \<le> max_redirects + 1"
  unfolding safely_resolve_url_def by (drule resolve_loop_length) simp

theorem redirect_chain_length_bound_witness:
  "safely_resolve_url scenario_env (ascii ''https://bit.ly/loop'') 5 =
     Inr (Some (ascii ''https://bit.ly/loop''),
          replicate 5 (ascii ''https://bit.ly/loop''), None) \<and>
   length (replicate 5 (ascii ''https://bit.ly/loop'')) \<le> 5 + 1"
proof -
  have run: "safely_resolve_url scenario_env (ascii ''https://bit.ly/loop'') 5 =
     Inr (Some (ascii ''https://bit.ly/loop''),
          replicate 5 (ascii ''https://bit.ly/loop''), None)"
    by (simp add: safely_resolve_url_def eval_nat_numeral scenario_web_def
        redirect_codes_def join_if_relative_def Let_def)
  from redirect_chain_length_bound [OF run] run show ?thesis by simp
qed

text \<open>
  C4. The claim is that a relative \<open>Location\<close> is resolved against the URL visited
  last. The source joins it to \<open>url\<close>, the URL the resolution started from: when the
  first hop redirects to an absolute URL \<open>l1\<close> and \<open>l1\<close> answers with a relative
  reference \<open>rel\<close>, the third entry of the chain is \<open>urljoin(url, rel)\<close>, whatever
  \<open>urljoin(l1, rel)\<close> is.
\<close>

theorem relative_location_joined_to_start:
  assumes "requests_head E 0 url = Inr \<lparr>status_code = 301, location = Some l1\<rparr>"
    and "startswith l1 (ascii ''https://'')"
    and "requests_head E 1 l1 = Inr \<lparr>status_code = 302, location = Some rel\<rparr>"
    and "rel \<noteq> []"
    and "\<not> startswith rel (ascii ''http://'')"
    and "\<not> startswith rel (ascii ''https://'')"
    and "urljoin E url rel = Inr j"
    and "j \<noteq> []"
    and "requests_head E 2 j = Inr \<lparr>status_code = 200, location = None\<rparr>"
  shows "safely_resolve_url E url 5 = Inr (Some j, [url, l1, j], None)"
  using assms startswith_nonempty [OF assms(2)]
  by (simp add: safely_resolve_url_def eval_nat_numeral redirect_codes_def
      join_if_relative_def Let_def)

theorem relative_location_joined_to_start_witness:
  "safely_resolve_url scenario_env (ascii ''https://bit.ly/a'') 5 =
     Inr (Some (ascii ''https://bit.ly/next''),
          [ascii ''https://bit.ly/a'', ascii ''https://example.com/dir/page'',
           ascii ''https://bit.ly/next''], None) \<and>
   urljoin scenario_env (ascii ''https://example.com/dir/page'') (ascii ''next'') =
     Inr (ascii ''https://example.com/dir/next'')"
proof -
  have "safely_resolve_url scenario_env (ascii ''https://bit.ly/a'') 5 =
     Inr (Some (ascii ''https://bit.ly/next''),
          [ascii ''https://bit.ly/a'', ascii ''https://example.com/dir/page'',
           ascii ''https://bit.ly/next''], None)"
    by (rule relative_location_joined_to_start [where rel = "ascii ''next''"])
       (simp_all add: scenario_web_def ascii_append)
  then show ?thesis by (simp add: ascii_append)
qed


section \<open>The redirect chain analyzer\<close>

text \<open>
  C7. Let \<open>rs\<close> be what \<open>tldextract.extract\<close> returns for the entries of the chain, one
  by one. A chain of at most 3 entries that all start with \<open>https://\<close> and whose
  entries have at most 2 distinct suffixes gets the empty risk list; and in general
  the result is the concatenation of three independent parts, one risk for more than
  3 entries, one for an \<open>http://\<close> entry together with an \<open>https://\<close> entry, one for
  more than 2 distinct suffixes among the entries.
\<close>

theorem analyze_redirect_chain_rules:
  "list_all2 (\<lambda>url r. tld_extract E url = Inr r) redirect_chain rs \<Longrightarrow>
   (length redirect_chain \<le> 3 \<and>
    list_all (\<lambda>url. startswith url (ascii ''https://'')) redirect_chain \<and>
    card (set (map suffix rs)) \<le> 2
      \<longrightarrow> analyze_redirect_chain E redirect_chain = Inr []) \<and>
   analyze_redirect_chain E redirect_chain =
     Inr ((if length redirect_chain > 3
           then [ascii ''Suspicious number of redirects: '' @ str_nat (length redirect_chain)]
           else []) @
          (if list_ex (\<lambda>url. startswith url (ascii ''http://'')) redirect_chain \<and>
              list_ex (\<lambda>url. startswith url (ascii ''https://'')) redirect_chain
           then [ascii ''Mixed HTTP/HTTPS redirects detected'']
           else []) @
          (if card (set (map suffix rs)) > 2
           then [ascii ''Multiple country domains in redirect chain: '' @
                 py_join (ascii '', '') (set_iter E (map suffix rs))]
           else []))"
proof -
  assume "list_all2 (\<lambda>url r. tld_extract E url = Inr r) redirect_chain rs"
  then have ex: "extract_all E redirect_chain = Inr rs"
    by (rule extract_all_pointwise)
  have card_eq: "length (remdups (map suffix rs)) = card (set (map suffix rs))"
    by (simp add: length_remdups_card_conv)
  have no_http: "\<not> list_ex (\<lambda>url. startswith url (ascii ''http://'')) redirect_chain"
    if "list_all (\<lambda>url. startswith url (ascii ''https://'')) redirect_chain"
    using that https_not_http by (auto simp: list_all_iff list_ex_iff)
  have eq: "analyze_redirect_chain E redirect_chain =
     Inr ((if length redirect_chain > 3
           then [ascii ''Suspicious number of redirects: '' @ str_nat (length redirect_chain)]
           else []) @
          (if list_ex (\<lambda>url. startswith url (ascii ''http://'')) redirect_chain \<and>
              list_ex (\<lambda>url. startswith url (ascii ''https://'')) redirect_chain
           then [ascii ''Mixed HTTP/HTTPS redirects detected'']
           else []) @
          (if card (set (map suffix rs)) > 2
           then [ascii ''Multiple country domains in redirect chain: '' @
                 py_join (ascii '', '') (set_iter E (map suffix rs))]
           else []))"
    using card_eq by (simp add: analyze_redirect_chain_def Let_def ex)
  have "analyze_redirect_chain E redirect_chain = Inr []"
    if "length redirect_chain \<le> 3 \<and>
        list_all (\<lambda>url. startswith url (ascii ''https://'')) redirect_chain \<and>
        card (set (map suffix rs)) \<le> 2"
    unfolding eq using that no_http by simp
  with eq show ?thesis by blast
qed

text \<open>
  Two chains: two \<open>https://\<close> entries with the suffixes \<open>ly\<close> and \<open>com\<close> give no risk;
  three \<open>https://\<close> entries with the suffixes \<open>ly\<close>, \<open>org\<close> and \<open>com\<close> give the suffix
  risk and no other.
\<close>

theorem analyze_redirect_chain_rules_witness:
  "list_all2 (\<lambda>url r. tld_extract scenario_env url = Inr r)
     [ascii ''https://bit.ly/1'', ascii ''https://github.com/foo''] [bit_ly, github_com] \<and>
   analyze_redirect_chain scenario_env
     [ascii ''https://bit.ly/1'', ascii ''https://github.com/foo''] = Inr [] \<and>
   list_all2 (\<lambda>url r. tld_extract suffix_env url = Inr r)
     [ascii ''https://bit.ly/1'', ascii ''https://example.org/x'', ascii ''https://github.com/foo'']
     [bit_ly, example_org, github_com] \<and>
   analyze_redirect_chain suffix_env
     [ascii ''https://bit.ly/1'', ascii ''https://example.org/x'', ascii ''https://github.com/foo''] =
     Inr [ascii ''Multiple country domains in redirect chain: ly, org, com'']"
proof -
  have two: "list_all2 (\<lambda>url r. tld_extract scenario_env url = Inr r)
     [ascii ''https://bit.ly/1'', ascii ''https://github.com/foo''] [bit_ly, github_com]"
    by simp
  have card_two: "card (set (map suffix [bit_ly, github_com])) \<le> 2"
    by (simp add: bit_ly_def github_com_def card_insert_if)
  have none: "analyze_redirect_chain scenario_env
     [ascii ''https://bit.ly/1'', ascii ''https://github.com/foo''] = Inr []"
    using analyze_redirect_chain_rules [OF two] card_two by simp
  have three: "list_all2 (\<lambda>url r. tld_extract suffix_env url = Inr r)
     [ascii ''https://bit.ly/1'', ascii ''https://example.org/x'', ascii ''https://github.com/foo'']
     [bit_ly, example_org, github_com]"
    by (simp add: suffix_env_def)
  have card_three: "card (set (map suffix [bit_ly, example_org, github_com])) = 3"
    by (simp add: bit_ly_def example_org_def github_com_def card_insert_if)
  have order: "set_iter suffix_env [suffix bit_ly, suffix example_org, suffix github_com] =
      [ascii ''ly'', ascii ''org'', ascii ''com'']"
    by (simp add: suffix_env_def bit_ly_def example_org_def github_com_def)
  have many: "analyze_redirect_chain suffix_env
     [ascii ''https://bit.ly/1'', ascii ''https://example.org/x'', ascii ''https://github.com/foo''] =
     Inr [ascii ''Multiple country domains in redirect chain: ly, org, com'']"
    using analyze_redirect_chain_rules [OF three] card_three
    by (simp add: order ascii_append ascii_append_left)
  from two none three many show ?thesis by blast
qed


section \<open>The homoglyph detector\<close>

text \<open>
  C9. A string of ASCII characters none of which is in the confusable-character set
  is not reported by \<open>contains_homoglyphs\<close>.
\<close>

theorem ascii_without_confusables_clean:
  "\<forall>ch\<in>set url. ch < 128 \<and> ch \<notin> confusable_chars \<Longrightarrow> \<not> contains_homoglyphs E url"
  by (auto simp: contains_homoglyphs_iff)

theorem ascii_without_confusables_clean_witness:
  "\<not> contains_homoglyphs scenario_env (ascii ''https://github.com/foo'')"
proof -
  have "\<forall>ch\<in>set (ascii ''https://github.com/foo''). ch < 128 \<and> ch \<notin> confusable_chars"
    by (simp add: ascii_def confusable_chars_eq)
  from ascii_without_confusables_clean [OF this] show ?thesis .
qed


section \<open>The risk aggregator\<close>

text \<open>
  C8. For the content \<open>https://github.com/foo\<close>, with the answers the libraries give
  for it (scheme \<open>https\<close>, registered domain \<open>github.com\<close>, no pattern matches, nothing
  to decode), \<open>analyze_content\<close> returns level \<open>LOW\<close>, recommendation \<open>ALLOW\<close> and no
  risks.
\<close>

theorem github_foo_allowed:
  assumes "c = ascii ''https://github.com/foo''"
    and "urlparse_scheme E c = Inr (ascii ''https'')"
    and "tld_extract E c =
           Inr \<lparr>subdomain = [], domain = ascii ''github'', suffix = ascii ''com'',
                registered_domain = ascii ''github.com''\<rparr>"
    and "idna_decode E (ascii ''github.com'') = Inr (ascii ''github.com'')"
    and "list_all (\<lambda>pattern. \<not> re_search E pattern c) suspicious_patterns"
    and "unquote E c = c"
  shows "analyze_content E c =
           Inr \<lparr>content = Some c, risk_level = ascii ''LOW'', risks = [],
                is_malicious = False, recommendation = ascii ''ALLOW''\<rparr>"
proof -
  have clean: "\<not> contains_homoglyphs E c" "\<not> contains_homoglyphs E (ascii ''github.com'')"
    unfolding contains_homoglyphs_iff confusable_chars_eq assms(1) by (simp_all add: ascii_def)
  have short: "\<not> is_shortlink E c"
    using assms(3) by (simp add: is_shortlink_def url_shorteners_def)
  have attack: "detect_homograph_attack E (ascii ''github.com'') = Inr False"
    using assms(4) clean(2) by (simp add: detect_homograph_attack_def)
  have safe: "ascii ''github.com'' \<in> set safe_domains"
    by (simp add: safe_domains_def)
  have body: "analyze_body E c (initial_locals c) = (None, initial_locals c)"
    using assms(2,3,6) filter_none [OF assms(5)] clean(1) short attack safe
    by (simp add: analyze_body_def shortlink_stage_def url_checks_def initial_locals_def
        homoglyph_check_def domain_check_def homograph_check_def encoded_check_def
        subdomain_check_def pattern_loop_eq ascii_append)
  show ?thesis
    unfolding analyze_content_def body
    by (simp add: result_of_def initial_locals_def recommendation_of_def)
qed

theorem github_foo_allowed_witness:
  "analyze_content scenario_env (ascii ''https://github.com/foo'') =
     Inr \<lparr>content = Some (ascii ''https://github.com/foo''), risk_level = ascii ''LOW'',
          risks = [], is_malicious = False, recommendation = ascii ''ALLOW''\<rparr>"
  by (rule github_foo_allowed [of _ scenario_env])
     (simp_all add: github_com_def suspicious_patterns_def ascii_def)

text \<open>
  C1. The claim is that no later check lowers the level. The source raises the level
  with \<open>max(risk_level, "MEDIUM")\<close> on strings, and \<open>"HIGH" < "LOW" < "MEDIUM"\<close> in
  the order of strings, so that \<open>max("HIGH", "MEDIUM")\<close> is \<open>"MEDIUM"\<close>. For the
  content \<open>https://github.com/login%20x\<close> the pattern check fires and sets \<open>HIGH\<close>, the
  percent-encoding check after it resets the level to \<open>MEDIUM\<close>, and the result is
  \<open>MEDIUM\<close> with recommendation \<open>WARN\<close>.
\<close>

theorem encoded_check_lowers_high:
  assumes "c = ascii ''https://github.com/login%20x''"
    and "urlparse_scheme E c = Inr (ascii ''https'')"
    and "tld_extract E c =
           Inr \<lparr>subdomain = [], domain = ascii ''github'', suffix = ascii ''com'',
                registered_domain = ascii ''github.com''\<rparr>"
    and "idna_decode E (ascii ''github.com'') = Inr (ascii ''github.com'')"
    and "re_search E (ascii ''(?i)login'') c"
    and "unquote E c = ascii ''https://github.com/login x''"
  shows "py_max (ascii ''HIGH'') (ascii ''MEDIUM'') = ascii ''MEDIUM'' \<and>
         (\<exists>found. ascii ''Suspicious pattern found: (?i)login'' \<in> set found \<and>
            analyze_content E c =
              Inr \<lparr>content = Some c, risk_level = ascii ''MEDIUM'',
                   risks = found @ [ascii ''URL contains encoded characters''],
                   is_malicious = False, recommendation = ascii ''WARN''\<rparr>)"
proof -
  define found where
    "found = map (\<lambda>p. ascii ''Suspicious pattern found: '' @ p)
               (filter (\<lambda>p. re_search E p c) suspicious_patterns)"
  have clean: "\<not> contains_homoglyphs E c" "\<not> contains_homoglyphs E (ascii ''github.com'')"
    unfolding contains_homoglyphs_iff confusable_chars_eq assms(1) by (simp_all add: ascii_def)
  have short: "\<not> is_shortlink E c"
    using assms(3) by (simp add: is_shortlink_def url_shorteners_def)
  have attack: "detect_homograph_attack E (ascii ''github.com'') = Inr False"
    using assms(4) clean(2) by (simp add: detect_homograph_attack_def)
  have safe: "ascii ''github.com'' \<in> set safe_domains"
    by (simp add: safe_domains_def)
  have login: "ascii ''(?i)login'' \<in> set suspicious_patterns"
    by (simp add: suspicious_patterns_def)
  with assms(5) have hit: "list_ex (\<lambda>p. re_search E p c) suspicious_patterns"
    by (auto simp: list_ex_iff)
  have "ascii ''Suspicious pattern found: '' @ ascii ''(?i)login'' \<in> set found"
    unfolding found_def using login assms(5) by (simp add: image_iff)
  then have mem: "ascii ''Suspicious pattern found: (?i)login'' \<in> set found"
    by (simp add: ascii_append)
  have differs: "unquote E c \<noteq> c"
    unfolding assms(6) by (simp add: assms(1))
  have body: "analyze_body E c (initial_locals c) =
      (None, \<lparr>content = Some c, risk_level = ascii ''MEDIUM'',
              risks = found @ [ascii ''URL contains encoded characters'']\<rparr>)"
    using assms(2,3) differs hit clean(1) short attack safe
    by (simp add: analyze_body_def shortlink_stage_def url_checks_def initial_locals_def
        homoglyph_check_def domain_check_def homograph_check_def encoded_check_def
        subdomain_check_def pattern_loop_eq ascii_append py_max_levels found_def)
  have "analyze_content E c =
      Inr \<lparr>content = Some c, risk_level = ascii ''MEDIUM'',
           risks = found @ [ascii ''URL contains encoded characters''],
           is_malicious = False, recommendation = ascii ''WARN''\<rparr>"
    unfolding analyze_content_def body
    by (simp add: result_of_def recommendation_of_def)
  with mem py_max_levels(3) show ?thesis by blast
qed

theorem encoded_check_lowers_high_witness:
  "py_max (ascii ''HIGH'') (ascii ''MEDIUM'') = ascii ''MEDIUM'' \<and>
   (\<exists>found. ascii ''Suspicious pattern found: (?i)login'' \<in> set found \<and>
      analyze_content scenario_env (ascii ''https://github.com/login%20x'') =
        Inr \<lparr>content = Some (ascii ''https://github.com/login%20x''),
             risk_level = ascii ''MEDIUM'',
             risks = found @ [ascii ''URL contains encoded characters''],
             is_malicious = False, recommendation = ascii ''WARN''\<rparr>)"
  by (rule encoded_check_lowers_high [of _ scenario_env])
     (simp_all add: github_com_def ascii_def)

text \<open>
  C2. The claim is level \<open>HIGH\<close> and recommendation \<open>BLOCK\<close> when the resolver fails.
  The failure does set \<open>HIGH\<close> and records the entry, but the content stays the
  shortener link, whose domain is not in \<open>safe_domains\<close>, and the allow-list check
  then computes \<open>max("HIGH", "MEDIUM")\<close>, which is \<open>"MEDIUM"\<close>: for
  \<open>https://bit.ly/abc\<close> with a request that raises a \<open>RequestException\<close> the result is
  \<open>MEDIUM\<close> with recommendation \<open>WARN\<close>.
\<close>

theorem resolver_failure_yields_medium:
  assumes "c = ascii ''https://bit.ly/abc''"
    and "urlparse_scheme E c = Inr (ascii ''https'')"
    and "tld_extract E c =
           Inr \<lparr>subdomain = [], domain = ascii ''bit'', suffix = ascii ''ly'',
                registered_domain = ascii ''bit.ly''\<rparr>"
    and "requests_head E 0 c = Inl (Exc RequestException msg)"
    and "idna_decode E (ascii ''bit.ly'') = Inr (ascii ''bit.ly'')"
    and "list_all (\<lambda>pattern. \<not> re_search E pattern c) suspicious_patterns"
    and "unquote E c = c"
  shows "analyze_content E c =
           Inr \<lparr>content = Some c, risk_level = ascii ''MEDIUM'',
                risks = [ascii ''Error resolving shortened URL: Error resolving URL: '' @ msg,
                         ascii ''Unknown domain: bit.ly''],
                is_malicious = False, recommendation = ascii ''WARN''\<rparr>"
proof -
  have clean: "\<not> contains_homoglyphs E c" "\<not> contains_homoglyphs E (ascii ''bit.ly'')"
    unfolding contains_homoglyphs_iff confusable_chars_eq assms(1) by (simp_all add: ascii_def)
  have short: "is_shortlink E c"
    using assms(3) by (simp add: is_shortlink_def url_shorteners_def)
  have resolve: "safely_resolve_url E c 5 =
      Inr (None, [c], Some (ascii ''Error resolving URL: '' @ msg))"
    using assms(4)
    by (simp add: safely_resolve_url_def eval_nat_numeral except_request_def)
  have stage: "shortlink_stage E c (initial_locals c) =
      (None, \<lparr>content = Some c, risk_level = ascii ''HIGH'',
              risks = [ascii ''Error resolving shortened URL: Error resolving URL: '' @ msg]\<rparr>)"
    using short resolve
    by (simp add: shortlink_stage_def initial_locals_def ascii_append_left)
  have attack: "detect_homograph_attack E (ascii ''bit.ly'') = Inr False"
    using assms(5) clean(2) by (simp add: detect_homograph_attack_def)
  have unsafe: "ascii ''bit.ly'' \<notin> set safe_domains"
    by (simp add: safe_domains_def)
  have checks: "url_checks E
      \<lparr>content = Some c, risk_level = ascii ''HIGH'',
       risks = [ascii ''Error resolving shortened URL: Error resolving URL: '' @ msg]\<rparr> =
      (None, \<lparr>content = Some c, risk_level = ascii ''MEDIUM'',
              risks = [ascii ''Error resolving shortened URL: Error resolving URL: '' @ msg,
                       ascii ''Unknown domain: bit.ly'']\<rparr>)"
    using assms(3,7) filter_none [OF assms(6)] clean(1) attack unsafe
    by (simp add: url_checks_def homoglyph_check_def domain_check_def homograph_check_def
        encoded_check_def subdomain_check_def pattern_loop_eq ascii_append py_max_levels)
  have body: "analyze_body E c (initial_locals c) =
      (None, \<lparr>content = Some c, risk_level = ascii ''MEDIUM'',
              risks = [ascii ''Error resolving shortened URL: Error resolving URL: '' @ msg,
                       ascii ''Unknown domain: bit.ly'']\<rparr>)"
    using assms(2) by (simp add: analyze_body_def stage checks)
  show ?thesis
    unfolding analyze_content_def body
    by (simp add: result_of_def recommendation_of_def)
qed

theorem resolver_failure_yields_medium_witness:
  "analyze_content scenario_env (ascii ''https://bit.ly/abc'') =
     Inr \<lparr>content = Some (ascii ''https://bit.ly/abc''), risk_level = ascii ''MEDIUM'',
          risks = [ascii ''Error resolving shortened URL: Error resolving URL: '' @
                   ascii ''Read timed out. (read timeout=5)'',
                   ascii ''Unknown domain: bit.ly''],
          is_malicious = False, recommendation = ascii ''WARN''\<rparr>"
  by (rule resolver_failure_yields_medium [of _ scenario_env])
     (simp_all add: bit_ly_def scenario_web_def suspicious_patterns_def ascii_def)


text \<open>
  C3. The recommendation is \<open>BLOCK\<close> for \<open>HIGH\<close>, \<open>WARN\<close> for \<open>MEDIUM\<close> and \<open>ALLOW\<close> for
  \<open>LOW\<close>, as claimed; but the conditional has no case for \<open>UNKNOWN\<close>, which falls
  into its last branch. When \<open>urlparse\<close> raises, the handler sets \<open>UNKNOWN\<close> and the
  result recommends \<open>ALLOW\<close>, where the claim has \<open>WARN\<close> or \<open>BLOCK\<close>.
\<close>

theorem unknown_recommends_allow:
  assumes "urlparse_scheme E c = Inl e"
  shows "recommendation_of (ascii ''HIGH'') = ascii ''BLOCK'' \<and>
         recommendation_of (ascii ''MEDIUM'') = ascii ''WARN'' \<and>
         recommendation_of (ascii ''LOW'') = ascii ''ALLOW'' \<and>
         recommendation_of (ascii ''UNKNOWN'') = ascii ''ALLOW'' \<and>
         analyze_content E c =
           Inr \<lparr>content = Some c, risk_level = ascii ''UNKNOWN'',
                risks = [ascii ''Error analyzing URL: '' @ exc_str e],
                is_malicious = False, recommendation = ascii ''ALLOW''\<rparr>"
  using assms
  by (simp add: recommendation_of_def analyze_content_def analyze_body_def initial_locals_def
      handle_exception_def result_of_def)

theorem unknown_recommends_allow_witness:
  "analyze_content scenario_env (ascii ''http://['') =
     Inr \<lparr>content = Some (ascii ''http://[''), risk_level = ascii ''UNKNOWN'',
          risks = [ascii ''Error analyzing URL: '' @ ascii ''Invalid IPv6 URL''],
          is_malicious = False, recommendation = ascii ''ALLOW''\<rparr>"
proof -
  have "urlparse_scheme scenario_env (ascii ''http://['') =
          Inl (Exc OtherException (ascii ''Invalid IPv6 URL''))"
    by simp
  from unknown_recommends_allow [OF this] show ?thesis by simp
qed

text \<open>
  C5. \<open>analyze_content\<close> returns a result for every content and every behaviour of the
  libraries; and whenever the \<open>try\<close> block raises an exception \<open>e\<close>, the result has
  level \<open>UNKNOWN\<close> and its risks end with \<open>Error analyzing URL: \<close> followed by \<open>str(e)\<close>.
\<close>

theorem analyze_content_never_raises:
  "\<exists>r. analyze_content E c = Inr r \<and>
       (\<forall>e s. analyze_body E c (initial_locals c) = (Some e, s) \<longrightarrow>
              risk_level r = ascii ''UNKNOWN'' \<and>
              risks r \<noteq> [] \<and>
              last (risks r) = ascii ''Error analyzing URL: '' @ exc_str e)"
proof (cases "analyze_body E c (initial_locals c)")
  case (Pair x s)
  then show ?thesis
    by (cases x) (simp_all add: analyze_content_def result_of_def handle_exception_def)
qed

theorem analyze_content_never_raises_witness:
  "analyze_body scenario_env (ascii ''http://['') (initial_locals (ascii ''http://['')) =
     (Some (Exc OtherException (ascii ''Invalid IPv6 URL'')),
      initial_locals (ascii ''http://['')) \<and>
   (\<exists>r. analyze_content scenario_env (ascii ''http://['') = Inr r \<and>
        risk_level r = ascii ''UNKNOWN'' \<and>
        last (risks r) = ascii ''Error analyzing URL: Invalid IPv6 URL'')"
proof -
  have body: "analyze_body scenario_env (ascii ''http://['') (initial_locals (ascii ''http://['')) =
     (Some (Exc OtherException (ascii ''Invalid IPv6 URL'')),
      initial_locals (ascii ''http://['')) "
    by (simp add: analyze_body_def)
  from analyze_content_never_raises [of scenario_env "ascii ''http://[''"] body
  show ?thesis by (auto simp: ascii_append)
qed

text \<open>
  C10. The digit \<open>1\<close> is in the confusable-character set, and \<open>contains_homoglyphs\<close> is
  true of every string that contains it. The consequence for URLs holds for the
  content the homoglyph check sees, not for the input: a shortener link is replaced by
  the URL it resolves to before the check. The shortener link \<open>https://bit.ly/1\<close>,
  redirecting to \<open>https://github.com/foo\<close>, contains \<open>1\<close> and is analysed as \<open>LOW\<close>
  without a homoglyph note.
\<close>

theorem digit_one_shortlink_counterexample:
  "of_char CHR ''1'' \<in> set (ascii ''https://bit.ly/1'') \<and>
   analyze_content scenario_env (ascii ''https://bit.ly/1'') =
     Inr \<lparr>content = Some (ascii ''https://github.com/foo''), risk_level = ascii ''LOW'',
          risks = [ascii ''URL redirect chain: https://bit.ly/1 -> https://github.com/foo''],
          is_malicious = False, recommendation = ascii ''ALLOW''\<rparr>"
proof -
  have one: "of_char CHR ''1'' \<in> set (ascii ''https://bit.ly/1'')"
    by (simp add: ascii_def)
  have short: "is_shortlink scenario_env (ascii ''https://bit.ly/1'')"
    by (simp add: is_shortlink_def bit_ly_def url_shorteners_def)
  have resolve: "safely_resolve_url scenario_env (ascii ''https://bit.ly/1'') 5 =
      Inr (Some (ascii ''https://github.com/foo''),
           [ascii ''https://bit.ly/1'', ascii ''https://github.com/foo''], None)"
    by (simp add: safely_resolve_url_def eval_nat_numeral scenario_web_def
        redirect_codes_def join_if_relative_def Let_def)
  have chain: "analyze_redirect_chain scenario_env
      [ascii ''https://bit.ly/1'', ascii ''https://github.com/foo''] = Inr []"
    by (simp add: analyze_redirect_chain_def Let_def bit_ly_def github_com_def)
  have stage: "shortlink_stage scenario_env (ascii ''https://bit.ly/1'')
        (initial_locals (ascii ''https://bit.ly/1'')) =
      (None, \<lparr>content = Some (ascii ''https://github.com/foo''), risk_level = ascii ''LOW'',
              risks = [ascii ''URL redirect chain: https://bit.ly/1 -> https://github.com/foo'']\<rparr>)"
    by (simp add: shortlink_stage_def short resolve chain initial_locals_def ascii_append
        ascii_append_left)
  have clean: "\<not> contains_homoglyphs scenario_env (ascii ''https://github.com/foo'')"
    "\<not> contains_homoglyphs scenario_env (ascii ''github.com'')"
    unfolding contains_homoglyphs_iff confusable_chars_eq by (simp_all add: ascii_def)
  have search: "\<not> py_in (ascii ''login'') (ascii ''https://github.com/foo'')"
    by (simp add: ascii_def)
  have checks: "url_checks scenario_env
      \<lparr>content = Some (ascii ''https://github.com/foo''), risk_level = ascii ''LOW'',
       risks = [ascii ''URL redirect chain: https://bit.ly/1 -> https://github.com/foo'']\<rparr> =
      (None, \<lparr>content = Some (ascii ''https://github.com/foo''), risk_level = ascii ''LOW'',
              risks = [ascii ''URL redirect chain: https://bit.ly/1 -> https://github.com/foo'']\<rparr>)"
    using clean search
    by (simp add: url_checks_def homoglyph_check_def domain_check_def homograph_check_def
        encoded_check_def subdomain_check_def pattern_loop_eq detect_homograph_attack_def
        github_com_def safe_domains_def ascii_append)
  have body: "analyze_body scenario_env (ascii ''https://bit.ly/1'')
        (initial_locals (ascii ''https://bit.ly/1'')) =
      (None, \<lparr>content = Some (ascii ''https://github.com/foo''), risk_level = ascii ''LOW'',
              risks = [ascii ''URL redirect chain: https://bit.ly/1 -> https://github.com/foo'']\<rparr>)"
    by (simp add: analyze_body_def stage checks)
  have "analyze_content scenario_env (ascii ''https://bit.ly/1'') =
     Inr \<lparr>content = Some (ascii ''https://github.com/foo''), risk_level = ascii ''LOW'',
          risks = [ascii ''URL redirect chain: https://bit.ly/1 -> https://github.com/foo''],
          is_malicious = False, recommendation = ascii ''ALLOW''\<rparr>"
    unfolding analyze_content_def body by (simp add: result_of_def recommendation_of_def)
  with one show ?thesis by blast
qed

text \<open>
  C10, as amended. The digit \<open>1\<close> is in the confusable-character set, and
  \<open>contains_homoglyphs\<close> is true of every string that contains it, whatever else the
  string holds. Consequently, when a content with a scheme is analysed without an
  internal failure and the content the checks ran on (the \<open>content\<close> of the result: the
  input itself, or the resolved URL of a shortener link) contains \<open>1\<close>, the result
  carries the homoglyph note and its level is \<open>MEDIUM\<close> or \<open>HIGH\<close>.
\<close>

theorem digit_one_escalates:
  "of_char CHR ''1'' \<in> confusable_chars \<and>
   (\<forall>u. of_char CHR ''1'' \<in> set u \<longrightarrow> contains_homoglyphs E u) \<and>
   (of_char CHR ''1'' \<in> set c' \<and>
    urlparse_scheme E c = Inr sch \<and> sch \<noteq> [] \<and>
    analyze_body E c (initial_locals c) = (None, s) \<and>
    content s = Some c'
      \<longrightarrow> (\<exists>r. analyze_content E c = Inr r \<and> content r = Some c' \<and>
               ascii ''URL contains visually similar characters (homoglyphs)'' \<in> set (risks r) \<and>
               (risk_level r = ascii ''MEDIUM'' \<or> risk_level r = ascii ''HIGH'')))"
proof (intro conjI allI impI)
  show conf: "of_char CHR ''1'' \<in> confusable_chars"
    by (simp add: confusable_chars_eq)
  show every: "contains_homoglyphs E u" if "of_char CHR ''1'' \<in> set u" for u
    unfolding contains_homoglyphs_iff using that conf by blast
  assume prems: "of_char CHR ''1'' \<in> set c' \<and>
    urlparse_scheme E c = Inr sch \<and> sch \<noteq> [] \<and>
    analyze_body E c (initial_locals c) = (None, s) \<and>
    content s = Some c'"
  then have body: "analyze_body E c (initial_locals c) = (None, s)"
    and working: "content s = Some c'"
    by simp_all
  from prems have h: "contains_homoglyphs E c'"
    by (simp add: every)
  from prems obtain s1 where
    st: "shortlink_stage E c (initial_locals c) = (None, s1)" and ch: "url_checks E s1 = (None, s)"
    by (auto simp: analyze_body_def split: prod.splits option.splits)
  have lv: "risk_level s1 = ascii ''LOW'' \<or> risk_level s1 = ascii ''HIGH''"
    using shortlink_stage_level [OF st] by (simp add: initial_locals_def)
  have c1: "content s1 = Some c'"
    using url_checks_content [OF ch] working by simp
  from url_checks_flagged [OF ch c1 h lv] working
  show "\<exists>r. analyze_content E c = Inr r \<and> content r = Some c' \<and>
          ascii ''URL contains visually similar characters (homoglyphs)'' \<in> set (risks r) \<and>
          (risk_level r = ascii ''MEDIUM'' \<or> risk_level r = ascii ''HIGH'')"
    by (simp add: analyze_content_def body result_of_def flagged_def)
qed

text \<open>
  The string \<open>1\<close> alone is reported, though it is no URL; and the plain ASCII URL
  \<open>https://github.com/v1\<close>, on an allow-listed domain, is analysed as \<open>MEDIUM\<close> with the
  homoglyph note.
\<close>

theorem digit_one_escalates_witness:
  "contains_homoglyphs scenario_env (ascii ''1'') \<and>
   of_char CHR ''1'' \<in> set (ascii ''https://github.com/v1'') \<and>
   contains_homoglyphs scenario_env (ascii ''https://github.com/v1'') \<and>
   analyze_body scenario_env (ascii ''https://github.com/v1'')
        (initial_locals (ascii ''https://github.com/v1'')) =
      (None, \<lparr>content = Some (ascii ''https://github.com/v1''), risk_level = ascii ''MEDIUM'',
              risks = [ascii ''URL contains visually similar characters (homoglyphs)'']\<rparr>) \<and>
   (\<exists>r. analyze_content scenario_env (ascii ''https://github.com/v1'') = Inr r \<and>
        content r = Some (ascii ''https://github.com/v1'') \<and>
        ascii ''URL contains visually similar characters (homoglyphs)'' \<in> set (risks r) \<and>
        (risk_level r = ascii ''MEDIUM'' \<or> risk_level r = ascii ''HIGH''))"
proof -
  note fact = digit_one_escalates [of scenario_env "ascii ''https://github.com/v1''"
      "ascii ''https://github.com/v1''" "ascii ''https''"
      "\<lparr>content = Some (ascii ''https://github.com/v1''), risk_level = ascii ''MEDIUM'',
        risks = [ascii ''URL contains visually similar characters (homoglyphs)'']\<rparr>"]
  have alone: "contains_homoglyphs scenario_env (ascii ''1'')"
    using fact by (simp add: ascii_def)
  have one: "of_char CHR ''1'' \<in> set (ascii ''https://github.com/v1'')"
    by (simp add: ascii_def)
  have hom: "contains_homoglyphs scenario_env (ascii ''https://github.com/v1'')"
    using fact one by blast
  have dom_clean: "\<not> contains_homoglyphs scenario_env (ascii ''github.com'')"
    unfolding contains_homoglyphs_iff confusable_chars_eq by (simp add: ascii_def)
  have search: "\<not> py_in (ascii ''login'') (ascii ''https://github.com/v1'')"
    by (simp add: ascii_def)
  have body: "analyze_body scenario_env (ascii ''https://github.com/v1'')
        (initial_locals (ascii ''https://github.com/v1'')) =
      (None, \<lparr>content = Some (ascii ''https://github.com/v1''), risk_level = ascii ''MEDIUM'',
              risks = [ascii ''URL contains visually similar characters (homoglyphs)'']\<rparr>)"
    using hom dom_clean search
    by (simp add: analyze_body_def shortlink_stage_def is_shortlink_def url_shorteners_def
        url_checks_def homoglyph_check_def domain_check_def homograph_check_def
        encoded_check_def subdomain_check_def pattern_loop_eq detect_homograph_attack_def
        github_com_def safe_domains_def ascii_append initial_locals_def py_max_levels)
  have "\<exists>r. analyze_content scenario_env (ascii ''https://github.com/v1'') = Inr r \<and>
        content r = Some (ascii ''https://github.com/v1'') \<and>
        ascii ''URL contains visually similar characters (homoglyphs)'' \<in> set (risks r) \<and>
        (risk_level r = ascii ''MEDIUM'' \<or> risk_level r = ascii ''HIGH'')"
    using fact one body by simp
  with alone one hom body show ?thesis by blast
qed


end
